theory Spec2Isabelle
  imports Complex_Main
begin

section \<open>JavaScript numbers\<close>

text \<open>
  A JavaScript \<open>number\<close> is an IEEE 754 binary64 value. A finite double is modelled by
  the rational number it denotes, and every arithmetic operation rounds its exact result
  to the nearest value with a 53-bit significand, ties to even (\<open>fl\<close>). The exponent range
  is not limited: the model agrees with the machine wherever no result overflows to
  Infinity or falls into the subnormal range, which covers percentages and their
  products with small constants. NaN and the infinities are not modelled.
\<close>

type_synonym number = rat

function bitlen :: "int \<Rightarrow> int" where
  "bitlen n = (if n \<le> 0 then 0 else 1 + bitlen (n div 2))"
  by pat_completeness auto
termination
  by (relation "measure nat") auto

declare bitlen.simps [simp del]

definition rne_pick :: "int \<Rightarrow> rat \<Rightarrow> int" where
  "rne_pick f r = (if r < 1/2 then f else if 1/2 < r then f + 1
                   else if f mod 2 = 0 then f else f + 1)"

definition rne :: "rat \<Rightarrow> int" where
  "rne y = rne_pick \<lfloor>y\<rfloor> (y - of_int \<lfloor>y\<rfloor>)"

definition expo_pick :: "int \<Rightarrow> rat \<Rightarrow> int" where
  "expo_pick e0 x = (if 2 powi e0 \<le> x then e0 else e0 - 1)"

definition expo :: "rat \<Rightarrow> int" where
  "expo x = expo_pick (bitlen (fst (quotient_of \<bar>x\<bar>))
                       - bitlen (snd (quotient_of \<bar>x\<bar>))) \<bar>x\<bar>"

definition quantize :: "rat \<Rightarrow> rat \<Rightarrow> rat" where
  "quantize q x = of_int (rne (x / q)) * q"

definition fl :: "rat \<Rightarrow> number" where
  "fl x = (if x = 0 then 0 else quantize (2 powi (expo x - 52)) x)"

definition js_add :: "number \<Rightarrow> number \<Rightarrow> number" where
  "js_add x y = fl (x + y)"

definition js_sub :: "number \<Rightarrow> number \<Rightarrow> number" where
  "js_sub x y = fl (x - y)"

definition js_mul :: "number \<Rightarrow> number \<Rightarrow> number" where
  "js_mul x y = fl (x * y)"

text \<open>Division is only used where the source has excluded a zero divisor.\<close>

definition js_div :: "number \<Rightarrow> number \<Rightarrow> number" where
  "js_div x y = fl (x / y)"

text \<open>\<open>Math.floor\<close> and \<open>Math.round\<close> are exact; \<open>Math.round\<close> rounds a tie upwards.\<close>

definition Math_floor :: "number \<Rightarrow> int" where
  "Math_floor x = \<lfloor>x\<rfloor>"

definition Math_round :: "number \<Rightarrow> int" where
  "Math_round x = \<lfloor>x + 1/2\<rfloor>"

definition Math_min :: "number \<Rightarrow> number \<Rightarrow> number" where
  "Math_min x y = (if x \<le> y then x else y)"

text \<open>Division of two \<open>BigInt\<close>s truncates towards zero.\<close>

definition bigint_div :: "int \<Rightarrow> int \<Rightarrow> int" where
  "bigint_div a b = sgn a * sgn b * (\<bar>a\<bar> div \<bar>b\<bar>)"

section \<open>Spending limiter (willService.ts)\<close>

text \<open>
  The four fields are strings in the source; the limits and the spent amount hold the
  decimal rendering of a \<open>BigInt\<close>, read back with \<open>BigInt(...)\<close> and written with
  \<open>toString()\<close>. The model stores the integers they denote.
\<close>

record SpendingLimits =
  perTxLimit :: int
  dailyLimit :: int
  dailySpent :: int
  lastResetDate :: string

datatype limit_reason = ExceedsPerTransactionLimit int | ExceedsDailyLimit int

text \<open>
  \<open>checkSpendingLimits(will, amount)\<close>: \<open>today\<close> is
  \<open>new Date().toISOString().split('T')[0]\<close>, the UTC calendar date of the call. The
  function mutates \<open>will.spendingLimits\<close>, so the model returns the limits with the
  verdict: \<open>None\<close> is \<open>{allowed: true}\<close>, \<open>Some r\<close> is \<open>{allowed: false, reason: r}\<close>.
\<close>

definition resetDaily :: "string \<Rightarrow> SpendingLimits \<Rightarrow> SpendingLimits" where
  "resetDaily today limits =
     (if lastResetDate limits \<noteq> today
      then limits\<lparr>dailySpent := 0, lastResetDate := today\<rparr>
      else limits)"

definition checkSpendingLimits ::
  "string \<Rightarrow> SpendingLimits \<Rightarrow> int \<Rightarrow> SpendingLimits \<times> limit_reason option" where
  "checkSpendingLimits today limits0 amount =
     (let limits = resetDaily today limits0
      in if amount > perTxLimit limits
         then (limits, Some (ExceedsPerTransactionLimit (perTxLimit limits)))
         else if dailySpent limits + amount > dailyLimit limits
         then (limits, Some (ExceedsDailyLimit (dailyLimit limits)))
         else (limits, None))"

definition updateDailySpent :: "SpendingLimits \<Rightarrow> int \<Rightarrow> SpendingLimits" where
  "updateDailySpent limits amount = limits\<lparr>dailySpent := dailySpent limits + amount\<rparr>"

text \<open>
  The amount sent to one beneficiary out of a wallet's distributable balance:
  \<open>percentageScaled = Math.round(beneficiary.percentage * 10)\<close>,
  \<open>amount = (walletBalance * BigInt(percentageScaled)) / 1000n\<close>.
\<close>

definition percentageScaled :: "number \<Rightarrow> int" where
  "percentageScaled p = Math_round (js_mul p 10)"

definition transferAmount :: "int \<Rightarrow> number \<Rightarrow> int" where
  "transferAmount walletBalance p = bigint_div (walletBalance * percentageScaled p) 1000"

section \<open>Authorization store (database.ts)\<close>

record Beneficiary =
  address :: string
  percentage :: number
  name :: string

datatype will_status = WillPending | WillExecuted | WillExpired

record StoredWillAuthorization =
  willId :: string
  owner :: string
  beneficiaries :: "Beneficiary list"
  totalAmount :: string
  validUntil :: int
  signature :: string
  createdAt :: int
  status :: will_status
  useStablecoin :: bool
  spendingLimits :: SpendingLimits
  aaWallet :: "string option"
  kitepassAddress :: "string option"
  useKitepass :: bool
  spendingRulesConfigured :: bool

datatype tx_type = DEATH_DECLARATION | DISTRIBUTION

datatype tx_status = TxPending | TxConfirmed | TxFailed

record TransactionRecord =
  txHash :: string
  tx_willId :: string
  tx_owner :: string
  beneficiaryAddress :: string
  beneficiaryName :: "string option"
  tx_amount :: int
  tx_tokenSymbol :: string
  txType :: tx_type
  tx_status :: tx_status
  tx_createdAt :: int

datatype wallet_status = WalletPending | WalletApproved | WalletRemoved

record LinkedWallet =
  lw_willId :: string
  lw_address :: string
  lw_signature :: string
  approvedAt :: int
  lw_status :: wallet_status

text \<open>The three tables the engine touches, each as its list of rows in row order.\<close>

record database =
  wills :: "StoredWillAuthorization list"
  transactions :: "TransactionRecord list"
  linked_wallets :: "LinkedWallet list"

definition getWillById :: "database \<Rightarrow> string \<Rightarrow> StoredWillAuthorization option" where
  "getWillById db wid = find (\<lambda>w. willId w = wid) (wills db)"

definition updateWillStatus :: "database \<Rightarrow> string \<Rightarrow> will_status \<Rightarrow> database" where
  "updateWillStatus db wid st =
     db\<lparr>wills := map (\<lambda>w. if willId w = wid then w\<lparr>status := st\<rparr> else w) (wills db)\<rparr>"

definition updateWillSpendingLimits :: "database \<Rightarrow> string \<Rightarrow> SpendingLimits \<Rightarrow> database" where
  "updateWillSpendingLimits db wid limits =
     db\<lparr>wills := map (\<lambda>w. if willId w = wid then w\<lparr>spendingLimits := limits\<rparr> else w)
                     (wills db)\<rparr>"

text \<open>\<open>INSERT OR REPLACE\<close> on the unique \<open>txHash\<close>: a row with the same hash is replaced.\<close>

definition saveTransaction :: "database \<Rightarrow> TransactionRecord \<Rightarrow> database" where
  "saveTransaction db tx =
     db\<lparr>transactions := filter (\<lambda>t. txHash t \<noteq> txHash tx) (transactions db) @ [tx]\<rparr>"

text \<open>Approved wallets of a will, \<open>ORDER BY approvedAt ASC\<close>.\<close>

definition getLinkedWalletsByWillId :: "database \<Rightarrow> string \<Rightarrow> LinkedWallet list" where
  "getLinkedWalletsByWillId db wid =
     sort_key approvedAt
       (filter (\<lambda>l. lw_willId l = wid \<and> lw_status l = WalletApproved) (linked_wallets db))"

section \<open>Collaborators\<close>

text \<open>
  The ledger client, the clock, the custody key and the account-abstraction provider are
  outside the repository's logic. Their state is a value of an arbitrary type \<open>'w\<close>; an
  operation takes that state and returns the next one together with either the message
  of the exception it threw (\<open>Inl\<close>) or its result (\<open>Inr\<close>).
\<close>

record WithdrawResult =
  wr_success :: bool
  wr_txHash :: "string option"
  wr_error :: "string option"

record VaultBalanceResult =
  vb_success :: bool
  vb_balance :: "string option"

record 'w env =
  todayUTC :: "'w \<Rightarrow> string"
  dateNow :: "'w \<Rightarrow> int"
  deathCertificateAddress :: string
  custodyWallet :: "string \<Rightarrow> string + string"
  getAddress :: "string \<Rightarrow> string + string"
  parseUnits6 :: "string \<Rightarrow> string + int"
  formatUnits6 :: "int \<Rightarrow> string"
  getBalance :: "string \<Rightarrow> 'w \<Rightarrow> (string + int) \<times> 'w"
  tokenSymbolOf :: "'w \<Rightarrow> (string + string) \<times> 'w"
  tokenDecimalsOf :: "'w \<Rightarrow> (string + int) \<times> 'w"
  tokenBalanceOf :: "string \<Rightarrow> 'w \<Rightarrow> (string + int) \<times> 'w"
  tokenAllowance :: "string \<Rightarrow> string \<Rightarrow> 'w \<Rightarrow> (string + int) \<times> 'w"
  transferFrom :: "string \<Rightarrow> string \<Rightarrow> int \<Rightarrow> 'w \<Rightarrow> (string + string) \<times> 'w"
  sendTransaction :: "string \<Rightarrow> int \<Rightarrow> 'w \<Rightarrow> (string + string) \<times> 'w"
  recordDeath :: "string \<Rightarrow> string \<Rightarrow> nat \<Rightarrow> string \<Rightarrow> 'w \<Rightarrow> (string + string) \<times> 'w"
  kitepassGetBalance :: "string \<Rightarrow> 'w \<Rightarrow> VaultBalanceResult \<times> 'w"
  kitepassWithdraw :: "string \<Rightarrow> string \<Rightarrow> string \<Rightarrow> string \<Rightarrow> 'w
                        \<Rightarrow> (string + WithdrawResult) \<times> 'w"

section \<open>Will execution (willService.ts)\<close>

datatype result_status = Confirmed | Failed

datatype result_error = LimitRejected limit_reason | ErrorMessage string

record ExecutionResult =
  beneficiary :: string
  r_txHash :: string
  r_amount :: int
  r_status :: result_status
  r_tokenSymbol :: string
  error :: "result_error option"

datatype exec_error =
    WillNotFound
  | OwnerMismatch
  | WillAlready will_status
  | InsufficientGas int
  | VaultBalanceFailed
  | Thrown string

datatype exec_outcome =
    ExecFailure exec_error
  | ExecSuccess "ExecutionResult list" "string option"

text \<open>What one run mutates: the working copy's limits, the store, the result list, the world.\<close>

record 'w exec_state =
  es_limits :: SpendingLimits
  es_db :: database
  es_results :: "ExecutionResult list"
  es_world :: "'w"

definition lower_char :: "char \<Rightarrow> char" where
  "lower_char c = (if 65 \<le> (of_char c :: nat) \<and> (of_char c :: nat) \<le> 90
                   then char_of ((of_char c :: nat) + 32) else c)"

definition toLowerCase :: "string \<Rightarrow> string" where
  "toLowerCase s = map lower_char s"

definition minGasRequired :: int where
  "minGasRequired = 5 * 10 ^ 16"

definition gasReserve :: int where
  "gasReserve = 10 ^ 16"

text \<open>The inner \<open>try\<close> block of the beneficiary loop: address checks, submission, wait.\<close>

definition submitTransfer ::
  "'w env \<Rightarrow> bool \<Rightarrow> string \<Rightarrow> Beneficiary \<Rightarrow> int \<Rightarrow> 'w \<Rightarrow> (string + string) \<times> 'w" where
  "submitTransfer env stablecoin src b amount w =
     (if stablecoin
      then (case getAddress env src of
              Inl e \<Rightarrow> (Inl e, w)
            | Inr fromAddr \<Rightarrow>
                (case getAddress env (address b) of
                   Inl e \<Rightarrow> (Inl e, w)
                 | Inr toAddr \<Rightarrow> transferFrom env fromAddr toAddr amount w))
      else (case getAddress env (address b) of
              Inl e \<Rightarrow> (Inl e, w)
            | Inr toAddress \<Rightarrow> sendTransaction env toAddress amount w))"

definition distributionRecord ::
  "string \<Rightarrow> string \<Rightarrow> string \<Rightarrow> Beneficiary \<Rightarrow> int \<Rightarrow> string \<Rightarrow> int \<Rightarrow> TransactionRecord" where
  "distributionRecord h wid src b amount tokenSymbol t =
     \<lparr>txHash = h, tx_willId = wid, tx_owner = src, beneficiaryAddress = address b,
      beneficiaryName = (if name b = [] then None else Some (name b)),
      tx_amount = amount, tx_tokenSymbol = tokenSymbol, txType = DISTRIBUTION,
      tx_status = TxConfirmed, tx_createdAt = t\<rparr>"

definition failedResult :: "Beneficiary \<Rightarrow> int \<Rightarrow> string \<Rightarrow> result_error option \<Rightarrow> ExecutionResult" where
  "failedResult b amount tokenSymbol e =
     \<lparr>beneficiary = name b, r_txHash = [], r_amount = amount, r_status = Failed,
      r_tokenSymbol = tokenSymbol, error = e\<rparr>"

definition confirmedResult :: "Beneficiary \<Rightarrow> string \<Rightarrow> int \<Rightarrow> string \<Rightarrow> ExecutionResult" where
  "confirmedResult b h amount tokenSymbol =
     \<lparr>beneficiary = name b, r_txHash = h, r_amount = amount, r_status = Confirmed,
      r_tokenSymbol = tokenSymbol, error = None\<rparr>"

text \<open>The body of \<open>for (const beneficiary of will.beneficiaries)\<close> in \<open>executeWill\<close>.\<close>

definition distributeTo ::
  "'w env \<Rightarrow> StoredWillAuthorization \<Rightarrow> string \<Rightarrow> string \<Rightarrow> int \<Rightarrow> 'w exec_state
     \<Rightarrow> Beneficiary \<Rightarrow> 'w exec_state" where
  "distributeTo env will tokenSymbol src walletBalance s b =
     (let amount = transferAmount walletBalance (percentage b)
      in if amount = 0 then s
         else (case checkSpendingLimits (todayUTC env (es_world s)) (es_limits s) amount of
                 (limits, Some reason) \<Rightarrow>
                   s\<lparr>es_limits := limits,
                     es_results := es_results s
                        @ [failedResult b amount tokenSymbol (Some (LimitRejected reason))]\<rparr>
               | (limits, None) \<Rightarrow>
                   (case submitTransfer env (useStablecoin will) src b amount (es_world s) of
                      (Inl msg, w) \<Rightarrow>
                        s\<lparr>es_limits := limits,
                          es_results := es_results s
                             @ [failedResult b amount tokenSymbol (Some (ErrorMessage msg))],
                          es_world := w\<rparr>
                    | (Inr h, w) \<Rightarrow>
                        s\<lparr>es_limits := updateDailySpent limits amount,
                          es_db := saveTransaction (es_db s)
                             (distributionRecord h (willId will) src b amount tokenSymbol (dateNow env w)),
                          es_results := es_results s @ [confirmedResult b h amount tokenSymbol],
                          es_world := w\<rparr>)))"

text \<open>The distributable balance of one wallet: the token balance, or the native balance
  less the gas reserve.\<close>

definition walletBalanceOf ::
  "'w env \<Rightarrow> bool \<Rightarrow> string \<Rightarrow> 'w \<Rightarrow> (string + int) \<times> 'w" where
  "walletBalanceOf env stablecoin a w =
     (if stablecoin then tokenBalanceOf env a w
      else (case getBalance env a w of
              (Inl e, w') \<Rightarrow> (Inl e, w')
            | (Inr rawBalance, w') \<Rightarrow>
                (Inr (if rawBalance > gasReserve then rawBalance - gasReserve else 0), w')))"

text \<open>
  The guards at the head of the wallet loop: \<open>None\<close> when the wallet is left without
  entering the beneficiary loop (a query threw and the wallet-level \<open>catch\<close> took over,
  the distributable balance is zero, or the allowance to the custody wallet is zero),
  \<open>Some walletBalance\<close> otherwise.
\<close>

definition distributableBalance ::
  "'w env \<Rightarrow> StoredWillAuthorization \<Rightarrow> string \<Rightarrow> LinkedWallet \<Rightarrow> 'w
     \<Rightarrow> int option \<times> 'w" where
  "distributableBalance env will custody lw w0 =
     (case walletBalanceOf env (useStablecoin will) (lw_address lw) w0 of
        (Inl e, w) \<Rightarrow> (None, w)
      | (Inr walletBalance, w) \<Rightarrow>
          if walletBalance = 0 then (None, w)
          else if useStablecoin will
          then (case tokenAllowance env (lw_address lw) custody w of
                  (Inl e, w') \<Rightarrow> (None, w')
                | (Inr allowance, w') \<Rightarrow>
                    if allowance = 0 then (None, w') else (Some walletBalance, w'))
          else (Some walletBalance, w))"

text \<open>The body of \<open>for (const linkedWallet of linkedWallets)\<close>, with its \<open>try\<close>/\<open>catch\<close>.\<close>

definition processWallet ::
  "'w env \<Rightarrow> StoredWillAuthorization \<Rightarrow> string \<Rightarrow> string \<Rightarrow> 'w exec_state
     \<Rightarrow> LinkedWallet \<Rightarrow> 'w exec_state" where
  "processWallet env will tokenSymbol custody s lw =
     (case distributableBalance env will custody lw (es_world s) of
        (None, w) \<Rightarrow> s\<lparr>es_world := w\<rparr>
      | (Some walletBalance, w) \<Rightarrow>
          foldl (distributeTo env will tokenSymbol (lw_address lw) walletBalance)
            (s\<lparr>es_world := w\<rparr>) (beneficiaries will))"

definition fanOut ::
  "'w env \<Rightarrow> StoredWillAuthorization \<Rightarrow> string \<Rightarrow> string \<Rightarrow> LinkedWallet list
     \<Rightarrow> 'w exec_state \<Rightarrow> 'w exec_state" where
  "fanOut env will tokenSymbol custody lws s = foldl (processWallet env will tokenSymbol custody) s lws"

text \<open>The custody wallet and its gas balance, checked before anything is sent.\<close>

definition gasCheck :: "'w env \<Rightarrow> string \<Rightarrow> 'w \<Rightarrow> (exec_error + string) \<times> 'w" where
  "gasCheck env custodyPrivateKey w =
     (case custodyWallet env custodyPrivateKey of
        Inl e \<Rightarrow> (Inl (Thrown e), w)
      | Inr custody \<Rightarrow>
          (case getBalance env custody w of
             (Inl e, w') \<Rightarrow> (Inl (Thrown e), w')
           | (Inr custodyBalance, w') \<Rightarrow>
               if custodyBalance < minGasRequired
               then (Inl (InsufficientGas custodyBalance), w')
               else (Inr custody, w')))"

definition deathRecord :: "string \<Rightarrow> StoredWillAuthorization \<Rightarrow> string \<Rightarrow> int \<Rightarrow> TransactionRecord" where
  "deathRecord h will registry t =
     \<lparr>txHash = h, tx_willId = willId will, tx_owner = owner will,
      beneficiaryAddress = registry,
      beneficiaryName = Some ''Death Certificate Registry'',
      tx_amount = 0, tx_tokenSymbol = ''KITE'', txType = DEATH_DECLARATION,
      tx_status = TxConfirmed, tx_createdAt = t\<rparr>"

text \<open>
  The death declaration and its \<open>try\<close>/\<open>catch\<close>: an error is logged and dropped. The
  result is \<open>deathTxHash\<close>.
\<close>

definition declareDeath ::
  "'w env \<Rightarrow> StoredWillAuthorization \<Rightarrow> string \<Rightarrow> database \<Rightarrow> 'w
     \<Rightarrow> string option \<times> database \<times> 'w" where
  "declareDeath env will deathMessage db w =
     (if deathCertificateAddress env = [] then (None, db, w)
      else (case recordDeath env (willId will) (owner will) (length (beneficiaries will))
                   deathMessage w of
              (Inl e, w') \<Rightarrow> (None, db, w')
            | (Inr h, w') \<Rightarrow>
                (Some h,
                 saveTransaction db
                   (deathRecord h will (deathCertificateAddress env) (dateNow env w')),
                 w')))"

definition deathMessage :: "StoredWillAuthorization \<Rightarrow> string" where
  "deathMessage will = ''Silene Protocol: Death confirmed for will '' @ willId will"

definition kitepassDeathMessage :: "StoredWillAuthorization \<Rightarrow> string" where
  "kitepassDeathMessage will =
     ''Silene Protocol (KitePass): Death confirmed for will '' @ willId will"

definition primaryWallet :: "string \<Rightarrow> StoredWillAuthorization \<Rightarrow> LinkedWallet" where
  "primaryWallet wid will =
     \<lparr>lw_willId = wid, lw_address = owner will, lw_signature = signature will,
      approvedAt = createdAt will, lw_status = WalletApproved\<rparr>"

text \<open>\<open>tokenSymbol\<close> and \<open>tokenDecimals\<close>; the decimals only reach the log.\<close>

definition tokenInfo :: "'w env \<Rightarrow> StoredWillAuthorization \<Rightarrow> 'w \<Rightarrow> (string + string) \<times> 'w" where
  "tokenInfo env will w =
     (if useStablecoin will
      then (case tokenSymbolOf env w of
              (Inl e, w') \<Rightarrow> (Inl e, w')
            | (Inr s, w') \<Rightarrow>
                (case tokenDecimalsOf env w' of
                   (Inl e, w'') \<Rightarrow> (Inl e, w'')
                 | (Inr d, w'') \<Rightarrow> (Inr s, w'')))
      else (Inr ''KITE'', w))"

definition truthy :: "string option \<Rightarrow> bool" where
  "truthy v = (case v of None \<Rightarrow> False | Some s \<Rightarrow> s \<noteq> [])"

text \<open>The body of the beneficiary loop of \<open>executeWithKitepass\<close>.\<close>

definition withdrawTo ::
  "'w env \<Rightarrow> StoredWillAuthorization \<Rightarrow> string \<Rightarrow> string \<Rightarrow> int \<Rightarrow> 'w exec_state
     \<Rightarrow> Beneficiary \<Rightarrow> 'w exec_state" where
  "withdrawTo env will custodyPrivateKey vault vaultBalance s b =
     (let amount = transferAmount vaultBalance (percentage b);
          amountFormatted = formatUnits6 env amount
      in if amount = 0 then s
         else (case kitepassWithdraw env (owner will) vault amountFormatted
                      custodyPrivateKey (es_world s) of
                 (Inl msg, w) \<Rightarrow>
                   s\<lparr>es_results := es_results s
                        @ [failedResult b amount ''USDT'' (Some (ErrorMessage msg))],
                     es_world := w\<rparr>
               | (Inr r, w) \<Rightarrow>
                   if wr_success r \<and> truthy (wr_txHash r)
                   then s\<lparr>es_db := saveTransaction (es_db s)
                              (distributionRecord (the (wr_txHash r)) (willId will) vault b
                                 amount ''USDT'' (dateNow env w)),
                          es_results := es_results s
                             @ [confirmedResult b (the (wr_txHash r)) amount ''USDT''],
                          es_world := w\<rparr>
                   else s\<lparr>es_results := es_results s
                             @ [failedResult b amount ''USDT''
                                  (map_option ErrorMessage (wr_error r))],
                          es_world := w\<rparr>))"

definition executeWithKitepass ::
  "'w env \<Rightarrow> StoredWillAuthorization \<Rightarrow> string \<Rightarrow> database \<Rightarrow> 'w
     \<Rightarrow> exec_outcome \<times> database \<times> 'w" where
  "executeWithKitepass env will custodyPrivateKey db w =
     (case gasCheck env custodyPrivateKey w of
        (Inl err, w1) \<Rightarrow> (ExecFailure err, db, w1)
      | (Inr custody, w1) \<Rightarrow>
          (case declareDeath env will
                  (kitepassDeathMessage will)
                  db w1 of
             (deathTxHash, db2, w2) \<Rightarrow>
               (case kitepassGetBalance env (the (kitepassAddress will)) w2 of
                  (balanceResult, w3) \<Rightarrow>
                    if \<not> vb_success balanceResult \<or> \<not> truthy (vb_balance balanceResult)
                    then (ExecFailure VaultBalanceFailed, db2, w3)
                    else (case parseUnits6 env (the (vb_balance balanceResult)) of
                            Inl e \<Rightarrow> (ExecFailure (Thrown e), db2, w3)
                          | Inr vaultBalance \<Rightarrow>
                              if vaultBalance = 0
                              then (ExecSuccess [] deathTxHash,
                                    updateWillStatus db2 (willId will) WillExecuted, w3)
                              else (let s = foldl
                                          (withdrawTo env will custodyPrivateKey
                                             (the (kitepassAddress will)) vaultBalance)
                                          \<lparr>es_limits = spendingLimits will, es_db = db2,
                                           es_results = [], es_world = w3\<rparr>
                                          (beneficiaries will)
                                    in (ExecSuccess (es_results s) deathTxHash,
                                        updateWillStatus (es_db s) (willId will) WillExecuted,
                                        es_world s))))))"

text \<open>The direct-transfer mode of \<open>executeWill\<close>, from the gas check to the return.\<close>

definition executeApprove ::
  "'w env \<Rightarrow> string \<Rightarrow> StoredWillAuthorization \<Rightarrow> string \<Rightarrow> database \<Rightarrow> 'w
     \<Rightarrow> exec_outcome \<times> database \<times> 'w" where
  "executeApprove env wid will custodyPrivateKey db w =
     (case gasCheck env custodyPrivateKey w of
        (Inl err, w1) \<Rightarrow> (ExecFailure err, db, w1)
      | (Inr custody, w1) \<Rightarrow>
          (case declareDeath env will
                  (deathMessage will) db w1 of
             (deathTxHash, db2, w2) \<Rightarrow>
               (let linked = getLinkedWalletsByWillId db2 wid;
                    linkedWallets = (if linked = [] then [primaryWallet wid will] else linked)
                in case tokenInfo env will w2 of
                     (Inl e, w3) \<Rightarrow> (ExecFailure (Thrown e), db2, w3)
                   | (Inr tokenSymbol, w3) \<Rightarrow>
                       (let s = fanOut env will tokenSymbol custody linkedWallets
                                  \<lparr>es_limits = spendingLimits will, es_db = db2,
                                   es_results = [], es_world = w3\<rparr>
                        in (ExecSuccess (es_results s) deathTxHash,
                            updateWillStatus (es_db s) wid WillExecuted,
                            es_world s)))))"

text \<open>
  \<open>executeWill(willId, owner, custodyPrivateKey, overrideBeneficiaries)\<close>. The will read
  from the store is a working copy: assigning the override list or the limits to it
  does not touch the store.
\<close>

definition executeWill ::
  "'w env \<Rightarrow> database \<Rightarrow> 'w \<Rightarrow> string \<Rightarrow> string \<Rightarrow> string \<Rightarrow> Beneficiary list option
     \<Rightarrow> exec_outcome \<times> database \<times> 'w" where
  "executeWill env db w wid ownr custodyPrivateKey overrideBeneficiaries =
     (case getWillById db wid of
        None \<Rightarrow> (ExecFailure WillNotFound, db, w)
      | Some will0 \<Rightarrow>
          if toLowerCase (owner will0) \<noteq> toLowerCase ownr
          then (ExecFailure OwnerMismatch, db, w)
          else if status will0 \<noteq> WillPending
          then (ExecFailure (WillAlready (status will0)), db, w)
          else (let will = (case overrideBeneficiaries of
                              None \<Rightarrow> will0
                            | Some bs \<Rightarrow> if bs \<noteq> [] then will0\<lparr>beneficiaries := bs\<rparr>
                                         else will0)
                in if useKitepass will \<and> truthy (kitepassAddress will)
                   then executeWithKitepass env will custodyPrivateKey db w
                   else executeApprove env wid will custodyPrivateKey db w))"

text \<open>
  A run changes the store at most by the status of the will and by new transaction rows.
\<close>

definition statusOnly :: "database \<Rightarrow> string \<Rightarrow> database \<Rightarrow> bool" where
  "statusOnly db wid db' \<longleftrightarrow>
     linked_wallets db' = linked_wallets db
     \<and> (wills db' = wills db \<or> wills db' = wills (updateWillStatus db wid WillExecuted))"

section \<open>Signature verifier (willService.ts)\<close>


















section \<open>Observations on a run\<close>



definition resultsOf :: "exec_outcome \<Rightarrow> ExecutionResult list" where
  "resultsOf out = (case out of ExecFailure e \<Rightarrow> [] | ExecSuccess rs d \<Rightarrow> rs)"




section \<open>A sample world\<close>

text \<open>
  A small test double for the collaborators, used to run the model on concrete inputs.
  Its state is the list of transfers submitted so far. Balances and allowances are read
  from a table; the token balance of \<open>0xunreachable\<close> cannot be queried, a transfer to
  \<open>0xrevert\<close> fails on chain, an address \<open>0xbad\<close> is rejected by the checksum test, and
  no death certificate registry is configured.
\<close>

definition exampleEnv :: "(string \<Rightarrow> int) \<Rightarrow> (string \<times> int) list env" where
  "exampleEnv bal =
     \<lparr>todayUTC = (\<lambda>w. ''2024-01-02''),
      dateNow = (\<lambda>w. 1704153600000),
      deathCertificateAddress = [],
      custodyWallet = (\<lambda>k. Inr ''0xcustody''),
      getAddress = (\<lambda>a. if a = ''0xbad'' then Inl ''invalid address'' else Inr a),
      parseUnits6 = (\<lambda>s. Inl ''invalid decimal value''),
      formatUnits6 = (\<lambda>n. []),
      getBalance = (\<lambda>a w. (Inr (bal a), w)),
      tokenSymbolOf = (\<lambda>w. (Inr ''USDT'', w)),
      tokenDecimalsOf = (\<lambda>w. (Inr 6, w)),
      tokenBalanceOf = (\<lambda>a w. if a = ''0xunreachable'' then (Inl ''network error'', w)
                                 else (Inr (bal a), w)),
      tokenAllowance = (\<lambda>a c w. (Inr (bal a), w)),
      transferFrom = (\<lambda>f t n w. if t = ''0xrevert'' then (Inl ''execution reverted'', w @ [(t, 0)])
                                   else (Inr (''0xtx'' @ t), w @ [(t, n)])),
      sendTransaction = (\<lambda>t n w. (Inr (''0xtx'' @ t), w @ [(t, n)])),
      recordDeath = (\<lambda>i ownr n m w. (Inl ''registry not deployed'', w)),
      kitepassGetBalance = (\<lambda>a w. (\<lparr>vb_success = False, vb_balance = None\<rparr>, w)),
      kitepassWithdraw = (\<lambda>ownr v a k w. (Inl ''no vault'', w))\<rparr>"

definition exampleWill :: "Beneficiary list \<Rightarrow> SpendingLimits \<Rightarrow> StoredWillAuthorization" where
  "exampleWill bs limits =
     \<lparr>willId = ''will_1'', owner = ''0xOwner'', beneficiaries = bs, totalAmount = ''1000'',
      validUntil = 1800000000, signature = ''0xsig'', createdAt = 1700000000000,
      status = WillPending, useStablecoin = True, spendingLimits = limits,
      aaWallet = None, kitepassAddress = None, useKitepass = False,
      spendingRulesConfigured = False\<rparr>"

definition exampleDb :: "StoredWillAuthorization \<Rightarrow> string list \<Rightarrow> database" where
  "exampleDb will ws =
     \<lparr>wills = [will], transactions = [],
      linked_wallets = map (\<lambda>a. \<lparr>lw_willId = willId will, lw_address = a, lw_signature = ''0xsig'',
                                   approvedAt = 1700000000000, lw_status = WalletApproved\<rparr>) ws\<rparr>"

definition exampleBalances :: "string \<Rightarrow> int" where
  "exampleBalances a = (if a = ''0xcustody'' then 10 ^ 18 else if a = ''0xowner'' then 1000 else 0)"

definition AB :: "Beneficiary list" where
  "AB = [\<lparr>address = ''0xa'', percentage = 60, name = ''A''\<rparr>,
          \<lparr>address = ''0xb'', percentage = 40, name = ''B''\<rparr>]"

definition lim1000 :: SpendingLimits where
  "lim1000 = \<lparr>perTxLimit = 1000, dailyLimit = 1000, dailySpent = 0, lastResetDate = ''2024-01-01''\<rparr>"

definition exampleState :: "(string \<times> int) list exec_state" where
  "exampleState = \<lparr>es_limits = lim1000, es_db = exampleDb (exampleWill AB lim1000) [''0xowner''],
                    es_results = [], es_world = []\<rparr>"
















section \<open>Properties of the number model\<close>





section \<open>Limiter reset\<close>

text \<open>
  C8. A spending-limit check made on a date other than \<open>lastResetDate\<close> first sets
  \<open>dailySpent\<close> to zero and \<open>lastResetDate\<close> to today, whatever \<open>dailySpent\<close> was, and
  the two cap comparisons then see the zeroed counter; a check made on the same date
  changes nothing and compares the stored counter.
\<close>

theorem limiter_reset:
  "(lastResetDate limits \<noteq> today \<longrightarrow>
      fst (checkSpendingLimits today limits amount)
        = limits\<lparr>dailySpent := 0, lastResetDate := today\<rparr>
      \<and> (snd (checkSpendingLimits today limits amount) = None
           \<longleftrightarrow> amount \<le> perTxLimit limits \<and> 0 + amount \<le> dailyLimit limits))
   \<and> (lastResetDate limits = today \<longrightarrow>
      fst (checkSpendingLimits today limits amount) = limits
      \<and> (snd (checkSpendingLimits today limits amount) = None
           \<longleftrightarrow> amount \<le> perTxLimit limits
               \<and> dailySpent limits + amount \<le> dailyLimit limits))"
  by (auto simp: checkSpendingLimits_def resetDaily_def Let_def)

theorem limiter_reset_witness:
  "fst (checkSpendingLimits ''2024-01-02''
          \<lparr>perTxLimit = 100, dailyLimit = 1000, dailySpent = 990,
           lastResetDate = ''2024-01-01''\<rparr> 50)
     = \<lparr>perTxLimit = 100, dailyLimit = 1000, dailySpent = 0,
        lastResetDate = ''2024-01-02''\<rparr>
   \<and> snd (checkSpendingLimits ''2024-01-02''
          \<lparr>perTxLimit = 100, dailyLimit = 1000, dailySpent = 990,
           lastResetDate = ''2024-01-01''\<rparr> 50) = None
   \<and> fst (checkSpendingLimits ''2024-01-01''
          \<lparr>perTxLimit = 100, dailyLimit = 1000, dailySpent = 990,
           lastResetDate = ''2024-01-01''\<rparr> 50)
     = \<lparr>perTxLimit = 100, dailyLimit = 1000, dailySpent = 990,
        lastResetDate = ''2024-01-01''\<rparr>
   \<and> snd (checkSpendingLimits ''2024-01-01''
          \<lparr>perTxLimit = 100, dailyLimit = 1000, dailySpent = 990,
           lastResetDate = ''2024-01-01''\<rparr> 50) \<noteq> None"
  using limiter_reset [of "\<lparr>perTxLimit = 100, dailyLimit = 1000, dailySpent = 990,
           lastResetDate = ''2024-01-01''\<rparr>" "''2024-01-02'' " 50]
    limiter_reset [of "\<lparr>perTxLimit = 100, dailyLimit = 1000, dailySpent = 990,
           lastResetDate = ''2024-01-01''\<rparr>" "''2024-01-01'' " 50]
  by simp

section \<open>Amount scaling\<close>



section \<open>What a run writes to the store\<close>

lemma saveTransaction_frame [simp]:
  "wills (saveTransaction db tx) = wills db"
  "linked_wallets (saveTransaction db tx) = linked_wallets db"
  by (simp_all add: saveTransaction_def)

lemma distributeTo_frame:
  "wills (es_db (distributeTo env will tsym src bal s b)) = wills (es_db s)
   \<and> linked_wallets (es_db (distributeTo env will tsym src bal s b)) = linked_wallets (es_db s)"
  by (simp add: distributeTo_def Let_def split: prod.splits option.splits sum.splits)

lemma foldl_distributeTo_frame:
  "wills (es_db (foldl (distributeTo env will tsym src bal) s bs)) = wills (es_db s)
   \<and> linked_wallets (es_db (foldl (distributeTo env will tsym src bal) s bs))
       = linked_wallets (es_db s)"
  by (induction bs arbitrary: s) (simp_all add: distributeTo_frame)

lemma processWallet_frame:
  "wills (es_db (processWallet env will tsym custody s lw)) = wills (es_db s)
   \<and> linked_wallets (es_db (processWallet env will tsym custody s lw))
       = linked_wallets (es_db s)"
  by (simp add: processWallet_def foldl_distributeTo_frame split: prod.splits option.splits)

lemma fanOut_frame:
  "wills (es_db (fanOut env will tsym custody lws s)) = wills (es_db s)
   \<and> linked_wallets (es_db (fanOut env will tsym custody lws s)) = linked_wallets (es_db s)"
  unfolding fanOut_def
  by (induction lws arbitrary: s) (simp_all add: processWallet_frame)

lemma withdrawTo_frame:
  "wills (es_db (withdrawTo env will key vault bal s b)) = wills (es_db s)
   \<and> linked_wallets (es_db (withdrawTo env will key vault bal s b)) = linked_wallets (es_db s)"
  by (simp add: withdrawTo_def Let_def split: prod.splits sum.splits)

lemma foldl_withdrawTo_frame:
  "wills (es_db (foldl (withdrawTo env will key vault bal) s bs)) = wills (es_db s)
   \<and> linked_wallets (es_db (foldl (withdrawTo env will key vault bal) s bs))
       = linked_wallets (es_db s)"
  by (induction bs arbitrary: s) (simp_all add: withdrawTo_frame)

lemma declareDeath_frame:
  "declareDeath env will msg db w = (d, db2, w2)
   \<Longrightarrow> wills db2 = wills db \<and> linked_wallets db2 = linked_wallets db"
  by (auto simp: declareDeath_def split: prod.splits sum.splits if_splits)

lemma updateWillStatus_frame [simp]:
  "linked_wallets (updateWillStatus db wid st) = linked_wallets db"
  "map spendingLimits (wills (updateWillStatus db wid st)) = map spendingLimits (wills db)"
  by (simp_all add: updateWillStatus_def comp_def)

lemma executeApprove_frame:
  "statusOnly db wid (fst (snd (executeApprove env wid will key db w)))"
proof (cases "gasCheck env key w")
  case (Pair g w1)
  show ?thesis
  proof (cases g)
    case (Inl err)
    with Pair show ?thesis by (simp add: executeApprove_def statusOnly_def)
  next
    case (Inr custody)
    obtain d db2 w2 where dd: "declareDeath env will
        (deathMessage will) db w1 = (d, db2, w2)"
      by (cases "declareDeath env will
        (deathMessage will) db w1") auto
    from declareDeath_frame [OF dd]
    have fr: "wills db2 = wills db" "linked_wallets db2 = linked_wallets db" by simp_all
    from Pair Inr dd fr show ?thesis
      by (simp add: executeApprove_def statusOnly_def Let_def fanOut_frame updateWillStatus_def
          split: prod.splits sum.splits)
  qed
qed

lemma executeWithKitepass_frame:
  "statusOnly db (willId will) (fst (snd (executeWithKitepass env will key db w)))"
proof (cases "gasCheck env key w")
  case (Pair g w1)
  show ?thesis
  proof (cases g)
    case (Inl err)
    with Pair show ?thesis by (simp add: executeWithKitepass_def statusOnly_def)
  next
    case (Inr custody)
    obtain d db2 w2 where dd: "declareDeath env will
        (kitepassDeathMessage will) db w1
          = (d, db2, w2)"
      by (cases "declareDeath env will
        (kitepassDeathMessage will) db w1") auto
    from declareDeath_frame [OF dd]
    have fr: "wills db2 = wills db" "linked_wallets db2 = linked_wallets db" by simp_all
    from Pair Inr dd fr show ?thesis
      by (simp add: executeWithKitepass_def statusOnly_def Let_def foldl_withdrawTo_frame
          updateWillStatus_def split: prod.splits sum.splits)
  qed
qed

lemma getWillById_willId: "getWillById db wid = Some will \<Longrightarrow> willId will = wid"
  by (auto simp: getWillById_def find_Some_iff)

lemma executeWill_frame:
  "statusOnly db wid (fst (snd (executeWill env db w wid ownr key ov)))"
proof (cases "getWillById db wid")
  case None
  then show ?thesis by (simp add: executeWill_def statusOnly_def)
next
  case (Some will0)
  have id: "willId will0 = wid" by (rule getWillById_willId [OF Some])
  have k: "statusOnly db wid (fst (snd (executeWithKitepass env wl key db w)))"
    if "willId wl = wid" for wl
    using executeWithKitepass_frame [of db wl env key w] that by simp
  show ?thesis
    using Some id
    by (auto simp: executeWill_def Let_def executeApprove_frame k split: option.splits)
       (simp_all add: statusOnly_def)
qed


lemma getWillById_cong: "wills db' = wills db \<Longrightarrow> getWillById db' wid = getWillById db wid"
  by (simp add: getWillById_def)

lemma find_status_update:
  "find (\<lambda>w. willId w = wid) (map (\<lambda>w. if willId w = wid then w\<lparr>status := st\<rparr> else w) xs)
     = map_option (\<lambda>w. w\<lparr>status := st\<rparr>) (find (\<lambda>w. willId w = wid) xs)"
  by (induction xs) auto

lemma getWillById_updateWillStatus:
  "getWillById (updateWillStatus db wid st) wid
     = map_option (\<lambda>w. w\<lparr>status := st\<rparr>) (getWillById db wid)"
  by (simp add: getWillById_def updateWillStatus_def find_status_update)

lemma executeApprove_success:
  assumes "executeApprove env wid will key db w = (ExecSuccess rs d, db', w')"
  shows "wills db' = wills (updateWillStatus db wid WillExecuted)"
proof (cases "gasCheck env key w")
  case (Pair g w1)
  show ?thesis
  proof (cases g)
    case (Inl err)
    with Pair assms show ?thesis by (simp add: executeApprove_def)
  next
    case (Inr custody)
    obtain dh db2 w2 where dd: "declareDeath env will
        (deathMessage will) db w1 = (dh, db2, w2)"
      by (cases "declareDeath env will
        (deathMessage will) db w1") auto
    from declareDeath_frame [OF dd]
    have fr: "wills db2 = wills db" by simp
    from Pair Inr dd fr assms show ?thesis
      by (auto simp: executeApprove_def Let_def fanOut_frame updateWillStatus_def
          split: prod.splits sum.splits)
  qed
qed

lemma executeWithKitepass_success:
  assumes "executeWithKitepass env will key db w = (ExecSuccess rs d, db', w')"
  shows "wills db' = wills (updateWillStatus db (willId will) WillExecuted)"
proof (cases "gasCheck env key w")
  case (Pair g w1)
  show ?thesis
  proof (cases g)
    case (Inl err)
    with Pair assms show ?thesis by (simp add: executeWithKitepass_def)
  next
    case (Inr custody)
    obtain dh db2 w2 where dd: "declareDeath env will
        (kitepassDeathMessage will) db w1
          = (dh, db2, w2)"
      by (cases "declareDeath env will
        (kitepassDeathMessage will) db w1") auto
    from declareDeath_frame [OF dd]
    have fr: "wills db2 = wills db" by simp
    from Pair Inr dd fr assms show ?thesis
      by (auto simp: executeWithKitepass_def Let_def foldl_withdrawTo_frame updateWillStatus_def
          split: prod.splits sum.splits if_splits)
  qed
qed

lemma executeWill_success:
  assumes "executeWill env db w wid ownr key ov = (ExecSuccess rs d, db', w')"
  shows "\<exists>will0. getWillById db wid = Some will0
           \<and> getWillById db' wid = Some (will0\<lparr>status := WillExecuted\<rparr>)"
proof (cases "getWillById db wid")
  case None
  with assms show ?thesis by (simp add: executeWill_def)
next
  case (Some will0)
  have id: "willId will0 = wid" by (rule getWillById_willId [OF Some])
  have "wills db' = wills (updateWillStatus db wid WillExecuted)"
    using assms Some id
    by (auto simp: executeWill_def Let_def split: if_splits option.splits
        dest: executeApprove_success executeWithKitepass_success)
  then have "getWillById db' wid = getWillById (updateWillStatus db wid WillExecuted) wid"
    by (rule getWillById_cong)
  with Some show ?thesis by (simp add: getWillById_updateWillStatus)
qed

lemma executeWill_not_pending:
  assumes "getWillById db wid = Some will" "status will \<noteq> WillPending"
  shows "executeWill env db w wid ownr key ov
           = (ExecFailure (if toLowerCase (owner will) \<noteq> toLowerCase ownr
                           then OwnerMismatch else WillAlready (status will)), db, w)"
  using assms by (simp add: executeWill_def)

text \<open>
  C5. Executing a will whose stored status is already \<open>executed\<close> is rejected
  (\<open>Will already executed\<close>, or \<open>Owner mismatch\<close> when the claimed owner differs) and
  returns the store and the collaborators' state as it found them: no transaction row is
  written and nothing is submitted. In particular a second call after a successful run is
  rejected so, whatever its other arguments.
\<close>

theorem execution_idempotency:
  "(getWillById db wid = Some will \<longrightarrow> status will = WillExecuted \<longrightarrow>
      executeWill env db w wid ownr key ov
        = (ExecFailure (if toLowerCase (owner will) \<noteq> toLowerCase ownr
                        then OwnerMismatch else WillAlready WillExecuted), db, w))
   \<and> (executeWill env db w wid ownr key ov = (ExecSuccess rs d, db', w') \<longrightarrow>
        (\<exists>e. executeWill env2 db' w2 wid ownr2 key2 ov2 = (ExecFailure e, db', w2)))"
proof (intro conjI impI)
  assume "getWillById db wid = Some will" "status will = WillExecuted"
  then show "executeWill env db w wid ownr key ov
        = (ExecFailure (if toLowerCase (owner will) \<noteq> toLowerCase ownr
                        then OwnerMismatch else WillAlready WillExecuted), db, w)"
    using executeWill_not_pending [of db wid will env w ownr key ov] by simp
next
  assume "executeWill env db w wid ownr key ov = (ExecSuccess rs d, db', w')"
  from executeWill_success [OF this] obtain will0
    where g: "getWillById db' wid = Some (will0\<lparr>status := WillExecuted\<rparr>)" by blast
  show "\<exists>e. executeWill env2 db' w2 wid ownr2 key2 ov2 = (ExecFailure e, db', w2)"
    using executeWill_not_pending [OF g, of env2 w2 ownr2 key2 ov2] by simp
qed

text \<open>
  C10. The limits mutated during a run live in the working copy only. Whatever the run
  does, the \<open>spendingLimits\<close> of every stored will are what they were before it; the
  table of wills changes at most by the status of the executed will, the linked wallets
  not at all. \<open>updateWillSpendingLimits\<close> does not occur in \<open>executeWill\<close>.
\<close>

theorem spending_limits_not_persisted:
  "map spendingLimits (wills (fst (snd (executeWill env db w wid ownr key ov))))
     = map spendingLimits (wills db)
   \<and> linked_wallets (fst (snd (executeWill env db w wid ownr key ov))) = linked_wallets db
   \<and> (wills (fst (snd (executeWill env db w wid ownr key ov))) = wills db
      \<or> wills (fst (snd (executeWill env db w wid ownr key ov)))
          = map (\<lambda>x. if willId x = wid then x\<lparr>status := WillExecuted\<rparr> else x) (wills db))"
proof -
  have s: "statusOnly db wid (fst (snd (executeWill env db w wid ownr key ov)))"
    by (rule executeWill_frame)
  then have "map spendingLimits (wills (fst (snd (executeWill env db w wid ownr key ov))))
     = map spendingLimits (wills db)"
    unfolding statusOnly_def using updateWillStatus_frame(2) [of db wid WillExecuted] by auto
  with s show ?thesis
    by (simp add: statusOnly_def updateWillStatus_def)
qed


section \<open>Check, submit, commit\<close>

lemma checkSpendingLimits_allowed:
  "checkSpendingLimits today limits amount = (limits1, None)
   \<Longrightarrow> limits1 = resetDaily today limits \<and> amount \<le> perTxLimit limits1
       \<and> dailySpent limits1 + amount \<le> dailyLimit limits1"
  by (auto simp: checkSpendingLimits_def Let_def split: if_splits)

lemma checkSpendingLimits_fst:
  "fst (checkSpendingLimits today limits amount) = resetDaily today limits"
  by (simp add: checkSpendingLimits_def Let_def)

text \<open>
  C7. One pass of the beneficiary loop with a non-zero amount. If the limiter rejects, the
  collaborators' state and the store are untouched (nothing was submitted), the spent
  counter is not increased and a failed result carries the reason. If it allows, the
  amount is within both caps; a transfer that then fails leaves the counter and the store
  alone, and only a confirmed transfer adds the amount to \<open>dailySpent\<close>, which stays
  within \<open>dailyLimit\<close>.
\<close>

theorem limiter_check_before_commit:
  assumes amt: "transferAmount walletBalance (percentage b) = amount" "amount \<noteq> 0"
    and chk: "checkSpendingLimits (todayUTC env (es_world s)) (es_limits s) amount = (limits1, verdict)"
    and step: "distributeTo env will tokenSymbol src walletBalance s b = s'"
    and sub: "submitTransfer env (useStablecoin will) src b amount (es_world s) = (outcome, w')"
  shows "(verdict \<noteq> None \<longrightarrow>
            es_world s' = es_world s \<and> es_db s' = es_db s \<and> es_limits s' = limits1
            \<and> es_results s' = es_results s @ [failedResult b amount tokenSymbol
                                                (Some (LimitRejected (the verdict)))])
       \<and> (verdict = None \<longrightarrow> amount \<le> perTxLimit limits1 \<and> dailySpent limits1 + amount \<le> dailyLimit limits1)
       \<and> (verdict = None \<longrightarrow> (\<forall>msg. outcome = Inl msg \<longrightarrow>
            es_limits s' = limits1 \<and> es_db s' = es_db s \<and> es_world s' = w'
            \<and> es_results s' = es_results s @ [failedResult b amount tokenSymbol
                                                (Some (ErrorMessage msg))]))
       \<and> (verdict = None \<longrightarrow> (\<forall>h. outcome = Inr h \<longrightarrow>
            es_limits s' = updateDailySpent limits1 amount \<and> es_world s' = w'
            \<and> dailySpent (es_limits s') = dailySpent limits1 + amount
            \<and> dailySpent (es_limits s') \<le> dailyLimit (es_limits s')
            \<and> es_results s' = es_results s @ [confirmedResult b h amount tokenSymbol]))"
proof (cases verdict)
  case (Some r)
  with amt chk step show ?thesis
    by (auto simp: distributeTo_def Let_def)
next
  case None
  from chk None have ok: "amount \<le> perTxLimit limits1" "dailySpent limits1 + amount \<le> dailyLimit limits1"
    using checkSpendingLimits_allowed by blast+
  show ?thesis
  proof (cases outcome)
    case (Inl msg)
    with amt chk step sub None ok show ?thesis
      by (auto simp: distributeTo_def Let_def)
  next
    case (Inr h)
    with amt chk step sub None ok show ?thesis
      by (auto simp: distributeTo_def Let_def updateDailySpent_def)
  qed
qed


theorem limiter_check_before_commit_witness:
  "transferAmount 1000 (percentage (AB ! 0)) = 600
   \<and> checkSpendingLimits (todayUTC (exampleEnv exampleBalances) (es_world exampleState))
         (es_limits exampleState) 600
       = (lim1000\<lparr>dailySpent := 0, lastResetDate := ''2024-01-02''\<rparr>, None)
   \<and> submitTransfer (exampleEnv exampleBalances) (useStablecoin (exampleWill AB lim1000))
         ''0xowner'' (AB ! 0) 600 (es_world exampleState)
       = (Inr ''0xtx0xa'', [(''0xa'', 600)])
   \<and> dailySpent (es_limits (distributeTo (exampleEnv exampleBalances) (exampleWill AB lim1000)
          ''USDT'' ''0xowner'' 1000 exampleState (AB ! 0))) = 600
   \<and> dailySpent (es_limits (distributeTo (exampleEnv exampleBalances) (exampleWill AB lim1000)
          ''USDT'' ''0xowner'' 1000 exampleState (AB ! 0)))
       \<le> dailyLimit (es_limits (distributeTo (exampleEnv exampleBalances)
          (exampleWill AB lim1000) ''USDT'' ''0xowner'' 1000 exampleState (AB ! 0)))"
proof -
  have a: "transferAmount 1000 (percentage (AB ! 0)) = 600" by code_simp
  have n: "(600::int) \<noteq> 0" by simp
  have c: "checkSpendingLimits (todayUTC (exampleEnv exampleBalances) (es_world exampleState))
             (es_limits exampleState) 600
           = (lim1000\<lparr>dailySpent := 0, lastResetDate := ''2024-01-02''\<rparr>, None)"
    by code_simp
  have u: "submitTransfer (exampleEnv exampleBalances)
             (useStablecoin (exampleWill AB lim1000)) ''0xowner'' (AB ! 0) 600
             (es_world exampleState) = (Inr ''0xtx0xa'', [(''0xa'', 600)])"
    by code_simp
  note th = limiter_check_before_commit [OF a n c refl u, of "''USDT''"]
  from th have "dailySpent (es_limits (distributeTo (exampleEnv exampleBalances)
          (exampleWill AB lim1000) ''USDT'' ''0xowner'' 1000 exampleState (AB ! 0)))
      = dailySpent (lim1000\<lparr>dailySpent := 0, lastResetDate := ''2024-01-02''\<rparr>) + 600"
    by blast
  then have d: "dailySpent (es_limits (distributeTo (exampleEnv exampleBalances)
          (exampleWill AB lim1000) ''USDT'' ''0xowner'' 1000 exampleState (AB ! 0))) = 600"
    by simp
  from th have l: "dailySpent (es_limits (distributeTo (exampleEnv exampleBalances)
          (exampleWill AB lim1000) ''USDT'' ''0xowner'' 1000 exampleState (AB ! 0)))
       \<le> dailyLimit (es_limits (distributeTo (exampleEnv exampleBalances)
          (exampleWill AB lim1000) ''USDT'' ''0xowner'' 1000 exampleState (AB ! 0)))"
    by blast
  from a c u d l show ?thesis by blast
qed

theorem execution_idempotency_witness:
  "executeWill (exampleEnv exampleBalances)
      (exampleDb ((exampleWill AB lim1000)\<lparr>status := WillExecuted\<rparr>) [''0xowner'']) []
      ''will_1'' ''0xowner'' ''key'' None
     = (ExecFailure (WillAlready WillExecuted),
        exampleDb ((exampleWill AB lim1000)\<lparr>status := WillExecuted\<rparr>) [''0xowner''], [])
   \<and> (\<exists>e. executeWill (exampleEnv exampleBalances)
          (fst (snd (executeWill (exampleEnv exampleBalances)
             (exampleDb (exampleWill AB lim1000) [''0xowner'']) []
             ''will_1'' ''0xowner'' ''key'' None))) [] ''will_1'' ''0xowner'' ''key'' None
        = (ExecFailure e,
           fst (snd (executeWill (exampleEnv exampleBalances)
             (exampleDb (exampleWill AB lim1000) [''0xowner'']) []
             ''will_1'' ''0xowner'' ''key'' None)), []))"
proof -
  let ?E = "exampleEnv exampleBalances"
  let ?W = "(exampleWill AB lim1000)\<lparr>status := WillExecuted\<rparr>"
  let ?D = "exampleDb ?W [''0xowner'']"
  let ?run = "executeWill ?E (exampleDb (exampleWill AB lim1000) [''0xowner'']) []
             ''will_1'' ''0xowner'' ''key'' None"
  have g: "getWillById ?D ''will_1'' = Some ?W" by code_simp
  have s: "status ?W = WillExecuted" by simp
  have l: "toLowerCase (owner ?W) = toLowerCase ''0xowner''" by code_simp
  have r: "fst ?run = ExecSuccess [confirmedResult (AB ! 0) ''0xtx0xa'' 600 ''USDT'',
                                   confirmedResult (AB ! 1) ''0xtx0xb'' 400 ''USDT''] None"
    by code_simp
  then have r': "?run = (ExecSuccess [confirmedResult (AB ! 0) ''0xtx0xa'' 600 ''USDT'',
                                   confirmedResult (AB ! 1) ''0xtx0xb'' 400 ''USDT''] None,
                        fst (snd ?run), snd (snd ?run))"
    by (metis prod.collapse)
  have 1: "executeWill ?E ?D [] ''will_1'' ''0xowner'' ''key'' None
             = (ExecFailure (WillAlready WillExecuted), ?D, [])"
    using execution_idempotency [THEN conjunct1, rule_format, OF g s,
        of ?E "[]" "''0xowner''" "''key''" None] l
    by simp
  have 2: "\<exists>e. executeWill ?E (fst (snd ?run)) [] ''will_1'' ''0xowner'' ''key'' None
        = (ExecFailure e, fst (snd ?run), [])"
    using execution_idempotency [THEN conjunct2, rule_format, OF r',
        of ?E "[]" "''0xowner''" "''key''" None]
    by simp
  from 1 2 show ?thesis by blast
qed

section \<open>Results of the fan-out\<close>








section \<open>Fatal and recovered failures\<close>

lemma gasCheck_isl:
  "gasCheck env key w = (Inl e, w1) \<Longrightarrow> executeApprove env wid will key db w = (ExecFailure e, db, w1)"
  by (simp add: executeApprove_def)





section \<open>Canonical payload\<close>







end
